theory Spec2Isabelle
  imports Complex_Main
begin

section \<open>Values, exceptions and the runtime the store runs on\<close>

text \<open>
  The store of \<^verbatim>\<open>createPersistantStateStore\<close> keeps arbitrary JavaScript values. The
  model keeps what the store's code can tell apart: \<^verbatim>\<open>undefined\<close>, \<^verbatim>\<open>null\<close>,
  primitives, objects and functions by reference, the built-in methods of
  \<^verbatim>\<open>Object.prototype\<close> (named by their property name) and \<^verbatim>\<open>Object.prototype\<close>
  itself. A number is a finite value (every double is a rational), the negative zero,
  an infinity or \<^verbatim>\<open>NaN\<close>, so that equality of these values is \<^verbatim>\<open>Object.is\<close>, the
  dependency comparison of \<^verbatim>\<open>useMemo\<close>: \<^verbatim>\<open>NaN\<close> is itself, \<open>Num 0\<close> is not \<open>NegZero\<close>.
  The code applies \<^verbatim>\<open>===\<close> and \<^verbatim>\<open>!==\<close> only to \<^verbatim>\<open>undefined\<close>, to the sentinel and to
  functions, where they are this equality as well.
\<close>

datatype jsval =
    Undefined
  | Null
  | Bool bool
  | Num rat
  | NegZero
  | PosInfinity
  | NegInfinity
  | NaN
  | BigInt int
  | Str string
  | Symbol nat
  | Obj nat
  | Fn nat
  | Builtin string
  | ObjectPrototype

text \<open>\<^verbatim>\<open>typeof v === "function"\<close>.\<close>

fun isFunction :: "jsval \<Rightarrow> bool" where
  "isFunction (Fn _) = True"
| "isFunction (Builtin _) = True"
| "isFunction _ = False"

text \<open>The values the \<^verbatim>\<open>__proto__\<close> setter accepts as a prototype: an object or \<^verbatim>\<open>null\<close>.\<close>

fun isObjectOrNull :: "jsval \<Rightarrow> bool" where
  "isObjectOrNull Null = True"
| "isObjectOrNull (Obj _) = True"
| "isObjectOrNull (Fn _) = True"
| "isObjectOrNull (Builtin _) = True"
| "isObjectOrNull ObjectPrototype = True"
| "isObjectOrNull _ = False"

text \<open>
  An exception is either the engine's \<^verbatim>\<open>TypeError\<close> (calling a method that is not there,
  reading a property of \<^verbatim>\<open>undefined\<close>, assigning to a read-only property, a cyclic
  prototype) or a value thrown by a caller-supplied function.
\<close>

datatype exn = TypeError | Thrown jsval

datatype callres = Return jsval | Throw jsval

text \<open>
  A property an object inherits: a writable data property, a read-only data
  property, or the \<^verbatim>\<open>__proto__\<close> accessor.
\<close>

datatype inherited = DataProp jsval | ReadOnlyProp jsval | ProtoAccessor

text \<open>
  \<^verbatim>\<open>Object.prototype\<close>, which every object literal \<^verbatim>\<open>{}\<close> inherits from: eleven writable
  methods and the \<^verbatim>\<open>__proto__\<close> accessor.
\<close>

definition objectPrototypeMethods :: "string list" where
  "objectPrototypeMethods =
     [''constructor'', ''hasOwnProperty'', ''isPrototypeOf'', ''propertyIsEnumerable'',
      ''toLocaleString'', ''toString'', ''valueOf'', ''__defineGetter__'',
      ''__defineSetter__'', ''__lookupGetter__'', ''__lookupSetter__'']"

definition objectPrototype :: "string \<Rightarrow> inherited option" where
  "objectPrototype k =
     (if k = ''__proto__'' then Some ProtoAccessor
      else if k \<in> set objectPrototypeMethods then Some (DataProp (Builtin k))
      else None)"

section \<open>The state of one store instance\<close>

text \<open>
  \<^verbatim>\<open>store\<close> and \<^verbatim>\<open>listeners\<close> are object literals: their own properties are the maps
  below. \<^verbatim>\<open>listeners\<close> keeps the prototype it was created with; the prototype of
  \<^verbatim>\<open>store\<close> is a field, because \<^verbatim>\<open>store["__proto__"] = v\<close> can replace it. A listener is
  a function compared by reference, here a number. \<open>trace\<close> is the observable history:
  each evaluated assignment \<^verbatim>\<open>store[k] = v\<close> and each listener call, in order.
\<close>

type_synonym listener = nat

datatype event = Assigned string jsval | Invoked listener

record persistantStateStore =
  store :: "string \<rightharpoonup> jsval"
  storeProto :: jsval
  listeners :: "string \<rightharpoonup> listener list"
  storeListeners :: "listener list"
  trace :: "event list"

text \<open>The state right after \<^verbatim>\<open>createPersistantStateStore()\<close>.\<close>

definition createPersistantStateStore :: persistantStateStore where
  "createPersistantStateStore =
     \<lparr>store = Map.empty, storeProto = ObjectPrototype, listeners = Map.empty,
      storeListeners = [], trace = []\<rparr>"

text \<open>
  What the engine contributes and the store's source does not contain is a parameter.
  \<open>rt_call f args s\<close> is the outcome of calling the function value \<open>f\<close> (an updater, a
  default producer) in the state \<open>s\<close>: what it returns or throws, and the state it
  leaves, since a caller-supplied function may itself call a setter or \<open>deleteState\<close>
  before it returns or throws. \<open>rt_props v k\<close> is the property \<open>k\<close> visible on the
  object \<open>v\<close> through its prototype chain, and \<open>rt_inherits_store v\<close> tells whether
  that chain contains \<^verbatim>\<open>store\<close> itself; both matter only to an assignment to
  \<^verbatim>\<open>__proto__\<close> and after it replaced the prototype of \<^verbatim>\<open>store\<close>.
\<close>

record runtime =
  rt_call :: "jsval \<Rightarrow> jsval list \<Rightarrow> persistantStateStore \<Rightarrow> callres \<times> persistantStateStore"
  rt_props :: "jsval \<Rightarrow> string \<Rightarrow> inherited option"
  rt_inherits_store :: "jsval \<Rightarrow> bool"

text \<open>
  An operation ends normally with a value or with an exception; the state it leaves
  is returned in both cases, since an assignment made before a throw stays.
\<close>

type_synonym 'a outcome = "(exn + 'a) \<times> persistantStateStore"

subsection \<open>Property access on \<^verbatim>\<open>store\<close>\<close>

definition storeInherited :: "runtime \<Rightarrow> persistantStateStore \<Rightarrow> string \<Rightarrow> inherited option" where
  "storeInherited rt s k =
     (case storeProto s of
        ObjectPrototype \<Rightarrow> objectPrototype k
      | Null \<Rightarrow> None
      | v \<Rightarrow> rt_props rt v k)"

text \<open>\<^verbatim>\<open>stateId in store\<close>: an own or an inherited property.\<close>

definition storeHas :: "runtime \<Rightarrow> persistantStateStore \<Rightarrow> string \<Rightarrow> bool" where
  "storeHas rt s k \<longleftrightarrow> k \<in> dom (store s) \<or> k \<in> dom (storeInherited rt s)"

text \<open>\<^verbatim>\<open>store[stateId]\<close> read.\<close>

definition storeGet :: "runtime \<Rightarrow> persistantStateStore \<Rightarrow> string \<Rightarrow> jsval" where
  "storeGet rt s k =
     (case store s k of
        Some v \<Rightarrow> v
      | None \<Rightarrow>
         (case storeInherited rt s k of
            Some (DataProp v) \<Rightarrow> v
          | Some (ReadOnlyProp v) \<Rightarrow> v
          | Some ProtoAccessor \<Rightarrow> storeProto s
          | None \<Rightarrow> Undefined))"

text \<open>
  \<^verbatim>\<open>store[stateId] = v\<close> in a module, which is strict code. An own property is
  overwritten. Otherwise an inherited \<^verbatim>\<open>__proto__\<close> accessor receives the value: it
  replaces the prototype by an object or \<^verbatim>\<open>null\<close>, throws when that would make the
  prototype chain cyclic, and ignores anything else. An inherited read-only property
  makes the assignment throw. Otherwise an own property is created.
\<close>

definition storeSet :: "runtime \<Rightarrow> string \<Rightarrow> jsval \<Rightarrow> persistantStateStore \<Rightarrow> unit outcome" where
  "storeSet rt k v s =
     (let s' = s\<lparr>trace := trace s @ [Assigned k v]\<rparr> in
      case store s k of
        Some _ \<Rightarrow> (Inr (), s'\<lparr>store := (store s)(k \<mapsto> v)\<rparr>)
      | None \<Rightarrow>
         (case storeInherited rt s k of
            Some ProtoAccessor \<Rightarrow>
              (if isObjectOrNull v then
                 (if v \<noteq> Null \<and> rt_inherits_store rt v then (Inl TypeError, s')
                  else (Inr (), s'\<lparr>storeProto := v\<rparr>))
               else (Inr (), s'))
          | Some (ReadOnlyProp _) \<Rightarrow> (Inl TypeError, s')
          | Some (DataProp _) \<Rightarrow> (Inr (), s'\<lparr>store := (store s)(k \<mapsto> v)\<rparr>)
          | None \<Rightarrow> (Inr (), s'\<lparr>store := (store s)(k \<mapsto> v)\<rparr>)))"

subsection \<open>getStateSnapshot\<close>

text \<open>
  \<^verbatim>\<open>NotExists\<close> is a module-private symbol that no caller can obtain, so no stored value
  is equal to it: the snapshot is a type of its own.
\<close>

datatype snapshot = NotExists | Val jsval

definition getStateSnapshot :: "runtime \<Rightarrow> persistantStateStore \<Rightarrow> string \<Rightarrow> snapshot" where
  "getStateSnapshot rt s stateId =
     (if \<not> storeHas rt s stateId then NotExists else Val (storeGet rt s stateId))"

section \<open>Listener registry\<close>

text \<open>
  \<^verbatim>\<open>listeners[stateId]\<close> is an array the store created, or, when \<^verbatim>\<open>listeners\<close> has no own
  property of that name, whatever \<^verbatim>\<open>Object.prototype\<close> provides: a built-in function,
  \<^verbatim>\<open>Object.prototype\<close> itself for \<^verbatim>\<open>__proto__\<close>, or \<^verbatim>\<open>undefined\<close>.
\<close>

datatype listenersEntry = Array "listener list" | NotArray jsval

definition listenersHas :: "persistantStateStore \<Rightarrow> string \<Rightarrow> bool" where
  "listenersHas s k \<longleftrightarrow> k \<in> dom (listeners s) \<or> k \<in> dom objectPrototype"

definition listenersGet :: "persistantStateStore \<Rightarrow> string \<Rightarrow> listenersEntry" where
  "listenersGet s k =
     (case listeners s k of
        Some ls \<Rightarrow> Array ls
      | None \<Rightarrow>
         (case objectPrototype k of
            Some (DataProp v) \<Rightarrow> NotArray v
          | Some (ReadOnlyProp v) \<Rightarrow> NotArray v
          | Some ProtoAccessor \<Rightarrow> NotArray ObjectPrototype
          | None \<Rightarrow> NotArray Undefined))"

subsection \<open>subscribeStore\<close>

text \<open>The returned closure captures the listener; \<open>unsubscribeStore\<close> is its body.\<close>

definition subscribeStore :: "listener \<Rightarrow> persistantStateStore \<Rightarrow> listener \<times> persistantStateStore" where
  "subscribeStore listener s = (listener, s\<lparr>storeListeners := storeListeners s @ [listener]\<rparr>)"

definition unsubscribeStore :: "listener \<Rightarrow> persistantStateStore \<Rightarrow> persistantStateStore" where
  "unsubscribeStore listener s =
     s\<lparr>storeListeners := filter (\<lambda>l. l \<noteq> listener) (storeListeners s)\<rparr>"

subsection \<open>subscribeState\<close>

text \<open>
  The closure returned by \<^verbatim>\<open>subscribeState\<close> captures \<^verbatim>\<open>stateId\<close> and \<^verbatim>\<open>listener\<close>;
  \<open>unsubscribeState\<close> is its body. Both assignments to \<^verbatim>\<open>listeners[stateId]\<close> are reached
  only where the property is an own one or is not inherited, so they write own
  properties. \<^verbatim>\<open>push\<close> and \<^verbatim>\<open>filter\<close> exist on arrays only: on anything else the call
  is a \<^verbatim>\<open>TypeError\<close>.
\<close>

type_synonym unsubscribe = "string \<times> listener"

definition subscribeState :: "string \<Rightarrow> listener \<Rightarrow> persistantStateStore \<Rightarrow> unsubscribe outcome" where
  "subscribeState stateId listener s =
     (let s1 = (if \<not> listenersHas s stateId
                then s\<lparr>listeners := (listeners s)(stateId \<mapsto> [])\<rparr> else s)
      in case listenersGet s1 stateId of
           Array ls \<Rightarrow>
             (Inr (stateId, listener), s1\<lparr>listeners := (listeners s1)(stateId \<mapsto> ls @ [listener])\<rparr>)
         | NotArray _ \<Rightarrow> (Inl TypeError, s1))"

fun unsubscribeState :: "unsubscribe \<Rightarrow> persistantStateStore \<Rightarrow> unit outcome" where
  "unsubscribeState (stateId, listener) s =
     (case listenersGet s stateId of
        Array ls \<Rightarrow>
          (Inr (), s\<lparr>listeners := (listeners s)(stateId \<mapsto> filter (\<lambda>l. l \<noteq> listener) ls)\<rparr>)
      | NotArray _ \<Rightarrow> (Inl TypeError, s))"

subsection \<open>notifyState\<close>

text \<open>
  \<^verbatim>\<open>(listeners[stateId] ?? []).forEach((l) => l())\<close>. The listeners are the engine's
  change callbacks: a call is recorded in the trace, returns, and does not touch the
  store.
\<close>

definition notifyState :: "string \<Rightarrow> persistantStateStore \<Rightarrow> unit outcome" where
  "notifyState stateId s =
     (case listenersGet s stateId of
        Array ls \<Rightarrow> (Inr (), s\<lparr>trace := trace s @ map Invoked ls\<rparr>)
      | NotArray v \<Rightarrow> (if v = Undefined then (Inr (), s) else (Inl TypeError, s)))"

section \<open>Mutation dispatcher\<close>

text \<open>
  \<open>setStateBuilder rt stateId\<close> is the setter built for \<open>stateId\<close>. The updater is
  called with the raw value read before the call, and the assignment is made on the
  state the updater leaves. An exception of the updater or of the assignment ends
  the call before \<open>notifyState\<close>.
\<close>

definition setStateBuilder :: "runtime \<Rightarrow> string \<Rightarrow> jsval \<Rightarrow> persistantStateStore \<Rightarrow> unit outcome" where
  "setStateBuilder rt stateId valueOrUpdator s =
     (case (if isFunction valueOrUpdator then
              (case rt_call rt valueOrUpdator [storeGet rt s stateId] s of
                 (Throw e, s1) \<Rightarrow> (Inl (Thrown e), s1)
               | (Return v, s1) \<Rightarrow> storeSet rt stateId v s1)
            else storeSet rt stateId valueOrUpdator s) of
        (Inl e, s2) \<Rightarrow> (Inl e, s2)
      | (Inr _, s2) \<Rightarrow> notifyState stateId s2)"

section \<open>Keyed-state binding\<close>

text \<open>
  One call of \<^verbatim>\<open>useState(stateId, defaultValue)\<close> during a render.
  \<^verbatim>\<open>useSyncExternalStore\<close> returns \<^verbatim>\<open>getStateSnapshot(stateId)\<close>; the engine calls the
  subscribe function later, when it commits the render, which is a separate
  \<open>subscribeState\<close> step. \<^verbatim>\<open>useMemo\<close> keeps, per binding instance, the dependencies and
  the result of the last run of its callback and runs the callback again only when a
  dependency changed; \<open>None\<close> is an instance that has no cached run.
  \<open>afterSnapshot\<close> is the callback.
\<close>

definition afterSnapshot ::
    "runtime \<Rightarrow> string \<Rightarrow> jsval \<Rightarrow> snapshot \<Rightarrow> persistantStateStore \<Rightarrow> jsval outcome" where
  "afterSnapshot rt stateId defaultValue snap s =
     (if snap = NotExists \<and> defaultValue \<noteq> Undefined then
        (case (if isFunction defaultValue then rt_call rt defaultValue [] s
               else (Return defaultValue, s)) of
           (Throw e, s1) \<Rightarrow> (Inl (Thrown e), s1)
         | (Return finalDefaultValue, s1) \<Rightarrow>
            (case storeSet rt stateId finalDefaultValue s1 of
               (Inl e, s2) \<Rightarrow> (Inl e, s2)
             | (Inr _, s2) \<Rightarrow>
                (case notifyState stateId s2 of
                   (Inl e, s3) \<Rightarrow> (Inl e, s3)
                 | (Inr _, s3) \<Rightarrow> (Inr finalDefaultValue, s3))))
      else if snap = NotExists then (Inr Undefined, s)
      else (case snap of Val v \<Rightarrow> (Inr v, s) | NotExists \<Rightarrow> (Inr Undefined, s)))"

type_synonym memo = "(snapshot \<times> jsval \<times> string) \<times> jsval"

text \<open>
  The optional parameter is \<open>None\<close> when the caller passes no default; the parameter
  then reads \<^verbatim>\<open>undefined\<close>. The result is the current value together with the key
  the returned setter \<open>setStateBuilder rt stateId\<close> is built for.
\<close>

definition useState ::
    "runtime \<Rightarrow> string \<Rightarrow> jsval option \<Rightarrow> memo option \<Rightarrow> persistantStateStore
       \<Rightarrow> (exn + jsval \<times> string) \<times> memo option \<times> persistantStateStore" where
  "useState rt stateId dflt m s =
     (let defaultValue = (case dflt of None \<Rightarrow> Undefined | Some v \<Rightarrow> v);
          snap = getStateSnapshot rt s stateId;
          deps = (snap, defaultValue, stateId)
      in case (case m of Some (deps', cached) \<Rightarrow> if deps' = deps then Some cached else None
                       | None \<Rightarrow> None) of
           Some cached \<Rightarrow> (Inr (cached, stateId), m, s)
         | None \<Rightarrow>
            (case afterSnapshot rt stateId defaultValue snap s of
               (Inl e, s') \<Rightarrow> (Inl e, m, s')
             | (Inr v, s') \<Rightarrow> (Inr (v, stateId), Some (deps, v), s')))"

section \<open>deleteState\<close>

text \<open>\<^verbatim>\<open>delete\<close> removes an own property and succeeds when there is none.\<close>

definition deleteState :: "string \<Rightarrow> persistantStateStore \<Rightarrow> persistantStateStore" where
  "deleteState stateId s =
     s\<lparr>store := (store s)(stateId := None), listeners := (listeners s)(stateId := None)\<rparr>"

section \<open>Three concrete runtimes\<close>

text \<open>
  In all three, caller-supplied objects have no properties and do not inherit from
  \<^verbatim>\<open>store\<close>. \<open>plainRuntime\<close>: every function returns \<^verbatim>\<open>undefined\<close> and leaves the store
  alone. \<open>echoRuntime\<close>: every function leaves the store alone and returns its first
  argument; it throws the string \<^verbatim>\<open>"boom"\<close> when called without one or as \<open>Fn 0\<close>.
  \<open>reentrantRuntime\<close>: the function \<open>Fn 2\<close> is
  \<^verbatim>\<open>() => { setA(9); throw "boom" }\<close> with \<^verbatim>\<open>setA\<close> the setter built for \<^verbatim>\<open>"a"\<close>; every
  other function is as in \<open>plainRuntime\<close>.
\<close>

definition plainRuntime :: runtime where
  "plainRuntime =
     \<lparr>rt_call = (\<lambda>f args s. (Return Undefined, s)), rt_props = (\<lambda>v k. None),
      rt_inherits_store = (\<lambda>v. False)\<rparr>"

definition echoRuntime :: runtime where
  "echoRuntime =
     \<lparr>rt_call = (\<lambda>f args s. if f = Fn 0 then (Throw (Str ''boom''), s)
                           else (case args of [] \<Rightarrow> (Throw (Str ''boom''), s)
                                 | a # _ \<Rightarrow> (Return a, s))),
      rt_props = (\<lambda>v k. None),
      rt_inherits_store = (\<lambda>v. False)\<rparr>"

definition reentrantRuntime :: runtime where
  "reentrantRuntime =
     \<lparr>rt_call = (\<lambda>f args s. if f = Fn 2
                           then (Throw (Str ''boom''), snd (setStateBuilder plainRuntime ''a'' (Num 9) s))
                           else (Return Undefined, s)),
      rt_props = (\<lambda>v k. None),
      rt_inherits_store = (\<lambda>v. False)\<rparr>"

section \<open>Evaluation rules\<close>

lemmas store_defs = storeHas_def storeGet_def storeSet_def storeInherited_def dom_def
lemmas proto_defs = objectPrototype_def objectPrototypeMethods_def
lemmas listener_defs = listenersHas_def listenersGet_def notifyState_def
lemmas fresh_defs = store_defs proto_defs listener_defs createPersistantStateStore_def
  getStateSnapshot_def

section \<open>Snapshot reader\<close>

lemma getStateSnapshot_own: "store s k = Some v \<Longrightarrow> getStateSnapshot rt s k = Val v"
  by (simp add: getStateSnapshot_def store_defs)

lemma getStateSnapshot_NotExists_iff:
  "getStateSnapshot rt s k = NotExists \<longleftrightarrow> store s k = None \<and> storeInherited rt s k = None"
  by (auto simp add: getStateSnapshot_def storeHas_def dom_def)

text \<open>
  For a key that \<^verbatim>\<open>store\<close> does not inherit, absence and presence are told apart as
  intended: the sentinel exactly when the key was never written.
\<close>

lemma getStateSnapshot_not_inherited:
  "storeInherited rt s k = None \<Longrightarrow>
     getStateSnapshot rt s k = (case store s k of None \<Rightarrow> NotExists | Some v \<Rightarrow> Val v)"
  by (simp add: getStateSnapshot_def store_defs split: option.splits)

text \<open>
  C1 (sentinel separation). The claim asks for the sentinel at every key that is
  absent from the store. On a new store nothing has been written under the key
  \<^verbatim>\<open>"toString"\<close>, yet \<^verbatim>\<open>"toString" in store\<close> holds through \<^verbatim>\<open>Object.prototype\<close>, and
  the snapshot is the inherited built-in function instead of \<^verbatim>\<open>NotExists\<close>.
\<close>

theorem getStateSnapshot_inherited_key:
  "store createPersistantStateStore ''toString'' = None \<and>
   getStateSnapshot rt createPersistantStateStore ''toString'' = Val (Builtin ''toString'')"
  by (simp add: fresh_defs)

section \<open>Setter\<close>

text \<open>
  The setter on a key that neither \<^verbatim>\<open>store\<close> nor \<^verbatim>\<open>listeners\<close> inherits: the value, or
  the updater's result on the raw stored value (\<^verbatim>\<open>undefined\<close> when the key is absent),
  becomes the stored value, and then the listeners of that key are called in
  registration order. No other listener appears in the trace.
\<close>

lemma storeGet_absent:
  "store s k = None \<Longrightarrow> storeInherited rt s k = None \<Longrightarrow> storeGet rt s k = Undefined"
  by (simp add: storeGet_def)

lemma storeGet_own: "store s k = Some v \<Longrightarrow> storeGet rt s k = v"
  by (simp add: storeGet_def)

lemma storeSet_not_inherited:
  "storeInherited rt s k = None \<Longrightarrow>
     storeSet rt k v s =
       (Inr (), s\<lparr>store := (store s)(k \<mapsto> v), trace := trace s @ [Assigned k v]\<rparr>)"
  by (simp add: storeSet_def Let_def split: option.splits)

lemma notifyState_not_inherited:
  "objectPrototype k = None \<Longrightarrow>
     notifyState k s =
       (Inr (), s\<lparr>trace := trace s @ map Invoked (case listeners s k of None \<Rightarrow> [] | Some ls \<Rightarrow> ls)\<rparr>)"
  by (simp add: notifyState_def listenersGet_def split: option.splits)

lemma listeners_storeSet [simp]: "listeners (snd (storeSet rt k v s)) = listeners s"
  by (simp add: storeSet_def Let_def split: option.splits inherited.splits)

lemma storeListeners_storeSet [simp]:
  "storeListeners (snd (storeSet rt k v s)) = storeListeners s"
  by (simp add: storeSet_def Let_def split: option.splits inherited.splits)

lemma setStateBuilder_value:
  assumes "\<not> isFunction a" and "objectPrototype k = None" and "storeInherited rt s k = None"
  shows "setStateBuilder rt k a s =
           (Inr (), s\<lparr>store := (store s)(k \<mapsto> a),
                      trace := trace s @ Assigned k a #
                        map Invoked (case listeners s k of None \<Rightarrow> [] | Some ls \<Rightarrow> ls)\<rparr>)"
  using assms
  by (simp add: setStateBuilder_def storeSet_not_inherited notifyState_not_inherited)

lemma setStateBuilder_updater:
  assumes "isFunction f" and "objectPrototype k = None"
    and "rt_call rt f [storeGet rt s k] s = (Return r, s1)"
    and "storeInherited rt s1 k = None"
  shows "setStateBuilder rt k f s =
           (Inr (), s1\<lparr>store := (store s1)(k \<mapsto> r),
                       trace := trace s1 @ Assigned k r #
                         map Invoked (case listeners s1 k of None \<Rightarrow> [] | Some ls \<Rightarrow> ls)\<rparr>)"
  using assms
  by (simp add: setStateBuilder_def storeSet_not_inherited notifyState_not_inherited)

lemma trace_notifyState:
  "Invoked l \<in> set (trace (snd (notifyState k s))) \<Longrightarrow>
     Invoked l \<in> set (trace s) \<or> (\<exists>ls. listeners s k = Some ls \<and> l \<in> set ls)"
  by (auto simp add: notifyState_def listenersGet_def split: option.splits inherited.splits if_splits)

lemma trace_storeSet:
  "Invoked l \<in> set (trace (snd (storeSet rt k v s))) \<longleftrightarrow> Invoked l \<in> set (trace s)"
  by (simp add: storeSet_def Let_def split: option.splits inherited.splits)

lemma setStateBuilder_invokes_key_listeners_only:
  assumes "Invoked l \<in> set (trace (snd (setStateBuilder rt k a s)))"
    and "\<not> isFunction a"
  shows "Invoked l \<in> set (trace s) \<or> (\<exists>ls. listeners s k = Some ls \<and> l \<in> set ls)"
proof (cases "storeSet rt k a s")
  case (Pair res s2)
  have s2: "s2 = snd (storeSet rt k a s)" using Pair by simp
  show ?thesis
  proof (cases res)
    case (Inl e)
    then show ?thesis
      using assms Pair trace_storeSet [of l rt k a s] by (simp add: setStateBuilder_def)
  next
    case (Inr u)
    then have "Invoked l \<in> set (trace (snd (notifyState k s2)))"
      using assms Pair by (simp add: setStateBuilder_def)
    then show ?thesis
      using trace_notifyState [of l k s2] trace_storeSet [of l rt k a s] s2 by auto
  qed
qed

text \<open>
  C3 (whole-store notification). The claim asks every setter call to notify the
  whole-store listeners as well. With listener 3 registered for \<^verbatim>\<open>"a"\<close> and listener 7
  registered through \<open>subscribeStore\<close>, the setter for \<^verbatim>\<open>"a"\<close> calls 3 and never 7:
  nothing in the module reads \<^verbatim>\<open>storeListeners\<close> to call its members.
\<close>

theorem setter_skips_store_listeners:
  "subscribeStore 7 (createPersistantStateStore\<lparr>listeners := [''a'' \<mapsto> [3]]\<rparr>)
     = (7, createPersistantStateStore\<lparr>listeners := [''a'' \<mapsto> [3]], storeListeners := [7]\<rparr>) \<and>
   setStateBuilder rt ''a'' (Num 1)
       (createPersistantStateStore\<lparr>listeners := [''a'' \<mapsto> [3]], storeListeners := [7]\<rparr>)
     = (Inr (), createPersistantStateStore
          \<lparr>store := [''a'' \<mapsto> Num 1], listeners := [''a'' \<mapsto> [3]], storeListeners := [7],
           trace := [Assigned ''a'' (Num 1), Invoked 3]\<rparr>)"
  by (simp add: fresh_defs subscribeStore_def setStateBuilder_def Let_def)

text \<open>
  C4 (setter semantics). The claim asks that a non-function argument becomes the
  stored value of every key. For the key \<^verbatim>\<open>"__proto__"\<close> on a new store the assignment
  goes to the inherited accessor, which ignores the number 5: nothing is stored, a
  later read gives \<^verbatim>\<open>Object.prototype\<close>, and \<open>notifyState\<close> ends in a \<^verbatim>\<open>TypeError\<close>
  because \<^verbatim>\<open>listeners["__proto__"]\<close> is not an array.
\<close>

theorem setter_proto_key_not_stored:
  "setStateBuilder rt ''__proto__'' (Num 5) createPersistantStateStore
     = (Inl TypeError, createPersistantStateStore\<lparr>trace := [Assigned ''__proto__'' (Num 5)]\<rparr>) \<and>
   storeGet rt (createPersistantStateStore\<lparr>trace := [Assigned ''__proto__'' (Num 5)]\<rparr>) ''__proto__''
     = ObjectPrototype"
  by (simp add: fresh_defs setStateBuilder_def Let_def)

text \<open>
  C10 (updater on an absent key). The claim asks that the updater of an absent key
  receives \<^verbatim>\<open>undefined\<close>. For the absent key \<^verbatim>\<open>"hasOwnProperty"\<close> the updater receives
  the inherited built-in function: with an updater that returns its argument, that
  function is what gets stored. The call then ends in a \<^verbatim>\<open>TypeError\<close> from
  \<open>notifyState\<close>.
\<close>

theorem setter_updater_sees_inherited:
  "store createPersistantStateStore ''hasOwnProperty'' = None \<and>
   setStateBuilder echoRuntime ''hasOwnProperty'' (Fn 1) createPersistantStateStore
     = (Inl TypeError, createPersistantStateStore
          \<lparr>store := [''hasOwnProperty'' \<mapsto> Builtin ''hasOwnProperty''],
           trace := [Assigned ''hasOwnProperty'' (Builtin ''hasOwnProperty'')]\<rparr>)"
  by (simp add: fresh_defs setStateBuilder_def Let_def echoRuntime_def)

text \<open>
  C5 (updater failure atomicity), as the code has it. When the updater throws, the
  setter ends with the thrown value as its exception in exactly the state the
  updater left: the setter itself makes no assignment and calls no listener. For an
  updater that does not itself change the store, \<open>s'\<close> is \<open>s\<close>: the stored value and
  its presence, the listener registry and the trace are those before the call.
\<close>

theorem setter_updater_throws:
  "isFunction f \<Longrightarrow> rt_call rt f [storeGet rt s stateId] s = (Throw e, s')
     \<Longrightarrow> setStateBuilder rt stateId f s = (Inl (Thrown e), s')"
  by (simp add: setStateBuilder_def)

theorem setter_updater_throws_witness:
  "isFunction (Fn 0) \<and>
   rt_call echoRuntime (Fn 0)
       [storeGet echoRuntime
          (createPersistantStateStore\<lparr>store := [''a'' \<mapsto> Num 1], listeners := [''a'' \<mapsto> [3]]\<rparr>) ''a'']
       (createPersistantStateStore\<lparr>store := [''a'' \<mapsto> Num 1], listeners := [''a'' \<mapsto> [3]]\<rparr>)
     = (Throw (Str ''boom''),
        createPersistantStateStore\<lparr>store := [''a'' \<mapsto> Num 1], listeners := [''a'' \<mapsto> [3]]\<rparr>) \<and>
   setStateBuilder echoRuntime ''a'' (Fn 0)
       (createPersistantStateStore\<lparr>store := [''a'' \<mapsto> Num 1], listeners := [''a'' \<mapsto> [3]]\<rparr>)
     = (Inl (Thrown (Str ''boom'')),
        createPersistantStateStore\<lparr>store := [''a'' \<mapsto> Num 1], listeners := [''a'' \<mapsto> [3]]\<rparr>)"
proof -
  let ?s = "createPersistantStateStore\<lparr>store := [''a'' \<mapsto> Num 1], listeners := [''a'' \<mapsto> [3]]\<rparr>"
  have f: "isFunction (Fn 0)" by simp
  have c: "rt_call echoRuntime (Fn 0) [storeGet echoRuntime ?s ''a''] ?s = (Throw (Str ''boom''), ?s)"
    by (simp add: echoRuntime_def)
  show ?thesis using f c setter_updater_throws [OF f c] by simp
qed

text \<open>
  C5 as stated, for every updater, fails for an updater that changes the store
  before it throws. With \<^verbatim>\<open>"a"\<close> holding 1 and listener 3 registered, the updater
  \<^verbatim>\<open>() => { setA(9); throw "boom" }\<close> makes the setter end with the exception while
  \<^verbatim>\<open>"a"\<close> holds 9 and listener 3 has been called.
\<close>

theorem setter_reentrant_updater_counterexample:
  "isFunction (Fn 2) \<and>
   fst (rt_call reentrantRuntime (Fn 2)
          [storeGet reentrantRuntime
             (createPersistantStateStore\<lparr>store := [''a'' \<mapsto> Num 1], listeners := [''a'' \<mapsto> [3]]\<rparr>) ''a'']
          (createPersistantStateStore\<lparr>store := [''a'' \<mapsto> Num 1], listeners := [''a'' \<mapsto> [3]]\<rparr>))
     = Throw (Str ''boom'') \<and>
   setStateBuilder reentrantRuntime ''a'' (Fn 2)
       (createPersistantStateStore\<lparr>store := [''a'' \<mapsto> Num 1], listeners := [''a'' \<mapsto> [3]]\<rparr>)
     = (Inl (Thrown (Str ''boom'')),
        createPersistantStateStore
          \<lparr>store := [''a'' \<mapsto> Num 9], listeners := [''a'' \<mapsto> [3]],
           trace := [Assigned ''a'' (Num 9), Invoked 3]\<rparr>)"
  by (simp add: fresh_defs setStateBuilder_def reentrantRuntime_def plainRuntime_def Let_def)

section \<open>Properties of the keyed-state binding\<close>

text \<open>
  Passing \<^verbatim>\<open>undefined\<close> as the default is passing none. Without a default the binding
  never changes the state, and on a key whose snapshot is the sentinel its callback
  returns \<^verbatim>\<open>undefined\<close>.
\<close>

lemma useState_undefined_default: "useState rt k (Some Undefined) m s = useState rt k None m s"
  by (simp add: useState_def)

lemma afterSnapshot_no_default: "afterSnapshot rt k Undefined snap s =
  (Inr (case snap of NotExists \<Rightarrow> Undefined | Val v \<Rightarrow> v), s)"
  by (simp add: afterSnapshot_def split: snapshot.splits)

lemma useState_no_default_state: "snd (snd (useState rt k None m s)) = s"
  by (simp add: useState_def afterSnapshot_no_default Let_def split: option.splits prod.splits)

lemma useState_no_default_absent:
  "getStateSnapshot rt s k = NotExists \<Longrightarrow>
     useState rt k None None s = (Inr (Undefined, k), Some ((NotExists, Undefined, k), Undefined), s)"
  by (simp add: useState_def afterSnapshot_no_default)

text \<open>
  C6 (no default, no write). The claim asks that the binding, called without a default
  on a key absent from the store, returns \<^verbatim>\<open>undefined\<close>. On a new store the key
  \<^verbatim>\<open>"toString"\<close> is absent, the snapshot is the inherited built-in function, and
  that function is returned as the current value. Nothing is written.
\<close>

theorem useState_inherited_key_no_default:
  "store createPersistantStateStore ''toString'' = None \<and>
   useState rt ''toString'' None None createPersistantStateStore
     = (Inr (Builtin ''toString'', ''toString''),
        Some ((Val (Builtin ''toString''), Undefined, ''toString''), Builtin ''toString''),
        createPersistantStateStore)"
  by (simp add: fresh_defs useState_def afterSnapshot_def)

lemma afterSnapshot_materialise:
  assumes "d \<noteq> Undefined" and "storeInherited rt s k = None"
    and "(if isFunction d then rt_call rt d [] s else (Return d, s)) = (Return v, s)"
  shows "snd (afterSnapshot rt k d NotExists s) = snd (notifyState k (snd (storeSet rt k v s)))"
  using assms
  by (simp add: afterSnapshot_def storeSet_not_inherited split: prod.splits sum.splits)

lemma notifyState_store [simp]: "store (snd (notifyState k s)) = store s"
  by (simp add: notifyState_def split: listenersEntry.splits)

lemma notifyState_trace:
  "trace (snd (notifyState k s)) =
     trace s @ map Invoked (case listenersGet s k of Array ls \<Rightarrow> ls | NotArray _ \<Rightarrow> [])"
  by (simp add: notifyState_def split: listenersEntry.splits)

text \<open>
  When the binding writes the default. Take a call with a supplied default \<open>d\<close> whose
  producer, if \<open>d\<close> is one, leaves the store alone. The call commits exactly when the
  snapshot is the sentinel, \<open>d\<close> is not \<^verbatim>\<open>undefined\<close>, the \<^verbatim>\<open>useMemo\<close> callback runs (the
  instance has no cached run for this snapshot, default and key), and the default,
  called as a zero-argument producer when it is a function and taken literally
  otherwise, yields a value \<open>v\<close>. Then \<open>v\<close> becomes the stored value of the key and the
  key's listeners are called after the assignment. In every other case the state is
  unchanged: in particular whenever the snapshot is not the sentinel, whatever
  default is passed.
\<close>

lemma useState_materialises_default:
  assumes "useState rt k (Some d) m s = (r, m', s')"
    and "(if isFunction d then rt_call rt d [] s else (Return d, s)) = (res, s)"
  shows "(getStateSnapshot rt s k = NotExists \<and> d \<noteq> Undefined \<and>
          (\<forall>c. m \<noteq> Some ((NotExists, d, k), c)) \<and> res = Return v
            \<longrightarrow> store s' = (store s)(k \<mapsto> v) \<and>
                trace s' = trace s @ Assigned k v #
                  map Invoked (case listenersGet s k of Array ls \<Rightarrow> ls | NotArray _ \<Rightarrow> [])) \<and>
         (\<not> (getStateSnapshot rt s k = NotExists \<and> d \<noteq> Undefined \<and>
             (\<forall>c. m \<noteq> Some ((NotExists, d, k), c)) \<and> (\<exists>w. res = Return w))
            \<longrightarrow> s' = s)"
proof (intro conjI impI)
  assume a: "getStateSnapshot rt s k = NotExists \<and> d \<noteq> Undefined \<and>
          (\<forall>c. m \<noteq> Some ((NotExists, d, k), c)) \<and> res = Return v"
  then have inh: "storeInherited rt s k = None"
    by (simp add: getStateSnapshot_NotExists_iff)
  have run: "s' = snd (afterSnapshot rt k d NotExists s)"
    using assms(1) a
    by (cases m) (auto simp add: useState_def Let_def split: prod.splits sum.splits if_splits)
  then have s': "s' = snd (notifyState k (snd (storeSet rt k v s)))"
    using a inh assms(2) afterSnapshot_materialise [of d rt s k v] by simp
  show "store s' = (store s)(k \<mapsto> v)"
    by (simp add: s' storeSet_not_inherited [OF inh])
  show "trace s' = trace s @ Assigned k v #
                  map Invoked (case listenersGet s k of Array ls \<Rightarrow> ls | NotArray _ \<Rightarrow> [])"
    by (simp add: s' notifyState_trace storeSet_not_inherited [OF inh]) (simp add: listenersGet_def)
next
  assume "\<not> (getStateSnapshot rt s k = NotExists \<and> d \<noteq> Undefined \<and>
             (\<forall>c. m \<noteq> Some ((NotExists, d, k), c)) \<and> (\<exists>w. res = Return w))"
  then show "s' = s"
    using assms
    by (cases m; cases res) (auto simp add: useState_def afterSnapshot_def Let_def
        split: prod.splits sum.splits if_splits callres.splits snapshot.splits)
qed

text \<open>
  C2 (default materialization). The claim asks that the default is committed whenever
  the observed snapshot is the sentinel and a default was supplied. A binding
  instance materializes the default 5 for \<^verbatim>\<open>"a"\<close>; \<open>deleteState\<close> removes the key before
  the instance renders with the stored value; the next call of the same instance
  with the same default observes the sentinel, finds the dependencies of its
  \<^verbatim>\<open>useMemo\<close> unchanged, and returns the cached 5 without writing: the key stays absent.
\<close>

theorem useState_memo_hit_skips_default:
  "useState plainRuntime ''a'' (Some (Num 5)) None createPersistantStateStore
     = (Inr (Num 5, ''a''), Some ((NotExists, Num 5, ''a''), Num 5),
        createPersistantStateStore\<lparr>store := [''a'' \<mapsto> Num 5], trace := [Assigned ''a'' (Num 5)]\<rparr>) \<and>
   deleteState ''a''
       (createPersistantStateStore\<lparr>store := [''a'' \<mapsto> Num 5], trace := [Assigned ''a'' (Num 5)]\<rparr>)
     = createPersistantStateStore\<lparr>trace := [Assigned ''a'' (Num 5)]\<rparr> \<and>
   getStateSnapshot plainRuntime (createPersistantStateStore\<lparr>trace := [Assigned ''a'' (Num 5)]\<rparr>) ''a''
     = NotExists \<and>
   useState plainRuntime ''a'' (Some (Num 5)) (Some ((NotExists, Num 5, ''a''), Num 5))
       (createPersistantStateStore\<lparr>trace := [Assigned ''a'' (Num 5)]\<rparr>)
     = (Inr (Num 5, ''a''), Some ((NotExists, Num 5, ''a''), Num 5),
        createPersistantStateStore\<lparr>trace := [Assigned ''a'' (Num 5)]\<rparr>)"
  by (simp add: fresh_defs useState_def afterSnapshot_def deleteState_def plainRuntime_def Let_def)

text \<open>
  A producer that returns \<^verbatim>\<open>undefined\<close>, on a key that is not inherited and whose
  snapshot is the sentinel: the key becomes present with the value \<^verbatim>\<open>undefined\<close> and its
  listeners are called.
\<close>

lemma useState_producer_undefined:
  assumes "getStateSnapshot rt s k = NotExists" and "objectPrototype k = None"
    and "isFunction f" and "rt_call rt f [] s = (Return Undefined, s)"
  shows "useState rt k (Some f) None s =
           (Inr (Undefined, k), Some ((NotExists, f, k), Undefined),
            s\<lparr>store := (store s)(k \<mapsto> Undefined),
              trace := trace s @ Assigned k Undefined #
                map Invoked (case listeners s k of None \<Rightarrow> [] | Some ls \<Rightarrow> ls)\<rparr>)"
proof -
  have inh: "storeInherited rt s k = None"
    using assms(1) by (simp add: getStateSnapshot_NotExists_iff)
  have "f \<noteq> Undefined" using assms(3) by auto
  then show ?thesis
    using assms
    by (simp add: useState_def afterSnapshot_def storeSet_not_inherited [OF inh]
        notifyState_not_inherited)
qed

text \<open>
  C9 (undefined defaults). The claim asks, for every key absent from the store, that
  the literal \<^verbatim>\<open>undefined\<close> default returns \<^verbatim>\<open>undefined\<close> and that a producer returning
  \<^verbatim>\<open>undefined\<close> makes the key present. On a new store with the absent key \<^verbatim>\<open>"valueOf"\<close>
  both calls return the inherited built-in function and the producer call does not
  materialize anything.
\<close>

theorem useState_inherited_key_undefined_defaults:
  "store createPersistantStateStore ''valueOf'' = None \<and>
   useState plainRuntime ''valueOf'' (Some Undefined) None createPersistantStateStore
     = (Inr (Builtin ''valueOf'', ''valueOf''),
        Some ((Val (Builtin ''valueOf''), Undefined, ''valueOf''), Builtin ''valueOf''),
        createPersistantStateStore) \<and>
   rt_call plainRuntime (Fn 1) [] createPersistantStateStore
     = (Return Undefined, createPersistantStateStore) \<and>
   useState plainRuntime ''valueOf'' (Some (Fn 1)) None createPersistantStateStore
     = (Inr (Builtin ''valueOf'', ''valueOf''),
        Some ((Val (Builtin ''valueOf''), Fn 1, ''valueOf''), Builtin ''valueOf''),
        createPersistantStateStore)"
  by (simp add: fresh_defs useState_def afterSnapshot_def plainRuntime_def Let_def)

section \<open>Deleting a key\<close>

text \<open>
  \<open>deleteState\<close> removes the own entries of the key in \<^verbatim>\<open>store\<close> and \<^verbatim>\<open>listeners\<close>, leaves
  every other key alone and is the identity where there is nothing to remove. For a
  key that is not inherited the snapshot afterwards is the sentinel.
\<close>

lemma deleteState_removes:
  "store (deleteState k s) k = None \<and> listeners (deleteState k s) k = None"
  by (simp add: deleteState_def)

lemma deleteState_other_keys:
  "k' \<noteq> k \<Longrightarrow>
     store (deleteState k s) k' = store s k' \<and> listeners (deleteState k s) k' = listeners s k'"
  by (simp add: deleteState_def)

lemma deleteState_absent:
  "store s k = None \<Longrightarrow> listeners s k = None \<Longrightarrow> deleteState k s = s"
  by (simp add: deleteState_def fun_upd_idem)

lemma deleteState_snapshot:
  "storeInherited rt s k = None \<Longrightarrow> getStateSnapshot rt (deleteState k s) k = NotExists"
  by (simp add: getStateSnapshot_NotExists_iff deleteState_def storeInherited_def)

text \<open>
  C7 (delete clears both). The claim asks that the snapshot after \<open>deleteState\<close> is the
  sentinel for every key. For \<^verbatim>\<open>"constructor"\<close> on a new store, \<open>deleteState\<close> is the
  no-op the claim describes, and the snapshot afterwards is the inherited built-in
  function.
\<close>

theorem deleteState_inherited_key:
  "deleteState ''constructor'' createPersistantStateStore = createPersistantStateStore \<and>
   getStateSnapshot rt (deleteState ''constructor'' createPersistantStateStore) ''constructor''
     = Val (Builtin ''constructor'')"
  by (simp add: fresh_defs deleteState_def)

section \<open>Subscribing and unsubscribing\<close>

text \<open>
  On a key that is not inherited, \<open>subscribeState\<close> appends the listener to the key's
  list. While the key has a listener list, the returned closure removes the entries
  equal to its listener and keeps the others in order, and a second call changes
  nothing. Without a list the closure ends in a \<^verbatim>\<open>TypeError\<close>: unlike \<open>notifyState\<close>, it
  reads \<^verbatim>\<open>listeners[stateId]\<close> without a fallback.
\<close>

lemma subscribeState_not_inherited:
  "objectPrototype k = None \<Longrightarrow>
     subscribeState k l s =
       (Inr (k, l),
        s\<lparr>listeners := (listeners s)(k \<mapsto> (case listeners s k of None \<Rightarrow> [] | Some ls \<Rightarrow> ls) @ [l])\<rparr>)"
  by (simp add: subscribeState_def listenersHas_def listenersGet_def dom_def split: option.splits)

lemma unsubscribeState_entry:
  "listeners s k = Some ls \<Longrightarrow>
     unsubscribeState (k, l) s =
       (Inr (), s\<lparr>listeners := (listeners s)(k \<mapsto> filter (\<lambda>x. x \<noteq> l) ls)\<rparr>)"
  by (simp add: listenersGet_def)

lemma unsubscribeState_twice:
  "listeners s k = Some ls \<Longrightarrow>
     unsubscribeState (k, l) (snd (unsubscribeState (k, l) s)) = unsubscribeState (k, l) s"
  by (simp add: listenersGet_def)

lemma unsubscribeState_no_entry:
  "listeners s k = None \<Longrightarrow> unsubscribeState (k, l) s = (Inl TypeError, s)"
  by (simp add: listenersGet_def split: option.splits inherited.splits)

text \<open>
  C8 (unsubscribe symmetry). The claim asks that calling the closure returned by
  \<open>subscribeState\<close> removes the listener and does not throw. After
  \<open>deleteState\<close> removed the key's listener list, calling the closure throws.
\<close>

theorem unsubscribe_after_deleteState:
  "subscribeState ''a'' 3 createPersistantStateStore
     = (Inr (''a'', 3), createPersistantStateStore\<lparr>listeners := [''a'' \<mapsto> [3]]\<rparr>) \<and>
   deleteState ''a'' (createPersistantStateStore\<lparr>listeners := [''a'' \<mapsto> [3]]\<rparr>)
     = createPersistantStateStore \<and>
   unsubscribeState (''a'', 3) createPersistantStateStore = (Inl TypeError, createPersistantStateStore)"
  by (simp add: subscribeState_def deleteState_def listener_defs proto_defs
      createPersistantStateStore_def dom_def)

end
